theory Spec2Isabelle
  imports Complex_Main
begin

section \<open>The boundary-penalty transform of \<^verbatim>\<open>penalize_uninteresting_values.c\<close>\<close>

text \<open>
  The file wraps an optimisation problem (\<^verbatim>\<open>coco_problem_t\<close>) so that every evaluation
  outside the region of interest is penalised: \<^verbatim>\<open>_puv_evaluate_function\<close> sums the squared
  violations of the box constraints, evaluates the inner problem into \<^verbatim>\<open>y\<close> and adds
  \<^verbatim>\<open>factor * penalty\<close> to every objective in place.

  Conventions of the embedding.
  \<^item> A C \<^verbatim>\<open>double\<close> is an element of \<^typ>\<open>real\<close>: arithmetic is exact, and rounding,
    infinities and NaN are outside the model.
  \<^item> \<^verbatim>\<open>x\<close> and \<^verbatim>\<open>y\<close> are pointers. A heap maps an address to the array of doubles stored
    there, and the evaluation functions take the heap and return the updated one, so that
    a caller passing the same buffer twice is a case of the model. The bound vectors belong
    to the problem and are held by value in its fields.
  \<^item> Evaluating a problem yields the objective values only: what else an evaluation does
    to the problem (an evaluation counter, say) is not modelled.
  \<^item> A failed \<^verbatim>\<open>assert\<close> aborts the program: it is the result \<open>Inl Assertion_failed\<close>.
    A read or write past the end of an array and a dereferenced null pointer are undefined
    in C: they are the result \<open>Inl Undefined_behaviour\<close>.
  \<^item> A leading underscore is not an Isabelle name: \<^verbatim>\<open>_puv_data_t\<close> is \<open>puv_data_t\<close> and
    \<^verbatim>\<open>_puv_evaluate_function\<close> is \<open>puv_evaluate_function\<close>.
\<close>

subsection \<open>Data\<close>

datatype error = Assertion_failed | Undefined_behaviour

type_synonym addr = nat

type_synonym heap = "addr \<Rightarrow> real list"

text \<open>\<^verbatim>\<open>typedef struct { double factor; } _puv_data_t;\<close>\<close>

record puv_data_t =
  factor :: real

text \<open>
  The function pointer \<^verbatim>\<open>evaluate_function\<close> of a problem. The only evaluation function
  this file defines is \<^verbatim>\<open>_puv_evaluate_function\<close>; every other one (a benchmark function,
  another transformation) lives elsewhere and is taken as a parameter: \<open>Extern f\<close> reads the
  array at \<^verbatim>\<open>x\<close> and either aborts or leaves the vector \<open>f\<close> computes from it in \<^verbatim>\<open>y\<close>. It
  receives \<^verbatim>\<open>x\<close> as \<^verbatim>\<open>const double *\<close> and writes nothing but \<^verbatim>\<open>y\<close>.
\<close>

datatype evaluate_function_t =
    Extern "real list \<Rightarrow> error + real list"
  | Puv_evaluate_function

text \<open>
  Modelled from the spec: \<^verbatim>\<open>coco_problem_t\<close> is declared in \<^verbatim>\<open>coco.h\<close>, which is not among
  the sources. The fields are the ones the file reads and the spec's data model lists:
  the evaluation function, the two dimensions and the two bound vectors. The opaque
  \<^verbatim>\<open>data\<close> pointer of a transformed problem is reached only through
  \<^verbatim>\<open>coco_get_transform_inner_problem\<close> and \<^verbatim>\<open>coco_get_transform_data\<close>; it is the last two
  fields, both \<open>None\<close> (null) on a problem that is not a transformation.
\<close>

datatype coco_problem_t = Coco_problem
  (evaluate_function: evaluate_function_t)
  (number_of_variables: nat)
  (number_of_objectives: nat)
  (smallest_values_of_interest: "real list")
  (largest_values_of_interest: "real list")
  (transform_inner_problem: "coco_problem_t option")
  (transform_data: "puv_data_t option")

text \<open>
  Modelled from the spec: the two accessors of \<^verbatim>\<open>coco_problem.c\<close> (not among the sources)
  return the wrapped problem and the transformation's private data.
\<close>

definition coco_get_transform_inner_problem :: "coco_problem_t \<Rightarrow> coco_problem_t option" where
  "coco_get_transform_inner_problem self = transform_inner_problem self"

definition coco_get_transform_data :: "coco_problem_t \<Rightarrow> puv_data_t option" where
  "coco_get_transform_data self = transform_data self"

text \<open>
  Modelled from the spec: \<^verbatim>\<open>coco_allocate_transformed_problem\<close> of \<^verbatim>\<open>coco_problem.c\<close> (not
  among the sources). The spec's construction contract: a new problem-shaped object that
  takes dimension, objective count and bounds from the inner problem, refers to the inner
  problem and stores the private data. The object starts with the inner problem's
  evaluation function; the caller replaces it. The third argument (a function that frees
  the private data, \<^verbatim>\<open>NULL\<close> here) concerns deallocation only and is left out.
\<close>

definition coco_allocate_transformed_problem :: "coco_problem_t \<Rightarrow> puv_data_t \<Rightarrow> coco_problem_t" where
  "coco_allocate_transformed_problem inner_problem user_data =
     Coco_problem
       (evaluate_function inner_problem)
       (number_of_variables inner_problem)
       (number_of_objectives inner_problem)
       (smallest_values_of_interest inner_problem)
       (largest_values_of_interest inner_problem)
       (Some inner_problem)
       (Some user_data)"

text \<open>The assignment \<^verbatim>\<open>self->evaluate_function = f\<close>.\<close>

fun set_evaluate_function :: "evaluate_function_t \<Rightarrow> coco_problem_t \<Rightarrow> coco_problem_t" where
  "set_evaluate_function f (Coco_problem _ n m lo hi inner d) = Coco_problem f n m lo hi inner d"

subsection \<open>The two loops of \<^verbatim>\<open>_puv_evaluate_function\<close>\<close>

text \<open>
  Lines 16 to 25. The loop runs \<open>i\<close> from its current value up to \<open>n\<close>; each
  iteration reads \<^verbatim>\<open>x[i]\<close> and both bounds, checks the assertion and takes at most one of the
  two branches.
\<close>

function penalty_loop ::
  "real list \<Rightarrow> real list \<Rightarrow> real list \<Rightarrow> nat \<Rightarrow> nat \<Rightarrow> real \<Rightarrow> error + real" where
  "penalty_loop x lower_bounds upper_bounds n i penalty =
     (if i < n then
        (if length x \<le> i \<or> length upper_bounds \<le> i \<or> length lower_bounds \<le> i
         then Inl Undefined_behaviour
         else
           (let c1 = x ! i - upper_bounds ! i;
                c2 = lower_bounds ! i - x ! i
            in if \<not> lower_bounds ! i < upper_bounds ! i then Inl Assertion_failed
               else if c1 > 0 then
                 penalty_loop x lower_bounds upper_bounds n (Suc i) (penalty + c1 * c1)
               else if c2 > 0 then
                 penalty_loop x lower_bounds upper_bounds n (Suc i) (penalty + c2 * c2)
               else penalty_loop x lower_bounds upper_bounds n (Suc i) penalty))
      else Inr penalty)"
  by pat_completeness auto
termination
  by (relation "measure (\<lambda>(x, lower_bounds, upper_bounds, n, i, penalty). n - i)") auto

text \<open>
  Lines 29 to 31. Each iteration dereferences \<^verbatim>\<open>data\<close> and updates \<^verbatim>\<open>y[i]\<close> in place.
\<close>

function add_penalty_loop ::
  "puv_data_t option \<Rightarrow> real list \<Rightarrow> nat \<Rightarrow> nat \<Rightarrow> real \<Rightarrow> error + real list" where
  "add_penalty_loop data y m i penalty =
     (if i < m then
        (case data of
           None \<Rightarrow> Inl Undefined_behaviour
         | Some d \<Rightarrow>
             if length y \<le> i then Inl Undefined_behaviour
             else add_penalty_loop data (y[i := y ! i + factor d * penalty]) m (Suc i) penalty)
      else Inr y)"
  by pat_completeness auto
termination
  by (relation "measure (\<lambda>(data, y, m, i, penalty). m - i)") auto

subsection \<open>Evaluation\<close>

text \<open>
  \<^verbatim>\<open>coco_evaluate_function\<close> is modelled from the spec (the function is in \<^verbatim>\<open>coco_problem.c\<close>,
  not among the sources): it calls the evaluation function the problem points to.
  \<^verbatim>\<open>_puv_evaluate_function\<close> is lines 10 to 32 of the source.
\<close>

function coco_evaluate_function :: "coco_problem_t \<Rightarrow> heap \<Rightarrow> addr \<Rightarrow> addr \<Rightarrow> error + heap"
  and puv_evaluate_function :: "coco_problem_t \<Rightarrow> heap \<Rightarrow> addr \<Rightarrow> addr \<Rightarrow> error + heap" where
  "coco_evaluate_function self h x y =
     (case evaluate_function self of
        Extern f \<Rightarrow> (case f (h x) of Inl e \<Rightarrow> Inl e | Inr v \<Rightarrow> Inr (h(y := v)))
      | Puv_evaluate_function \<Rightarrow> puv_evaluate_function self h x y)"
| "puv_evaluate_function self h x y =
     (let data = coco_get_transform_data self;
          lower_bounds = smallest_values_of_interest self;
          upper_bounds = largest_values_of_interest self
      in case penalty_loop (h x) lower_bounds upper_bounds (number_of_variables self) 0 0 of
           Inl e \<Rightarrow> Inl e
         | Inr penalty \<Rightarrow>
             (case coco_get_transform_inner_problem self of
                None \<Rightarrow> Inl Assertion_failed
              | Some inner \<Rightarrow>
                  (case coco_evaluate_function inner h x y of
                     Inl e \<Rightarrow> Inl e
                   | Inr h' \<Rightarrow>
                       (case add_penalty_loop data (h' y) (number_of_objectives self) 0 penalty of
                          Inl e \<Rightarrow> Inl e
                        | Inr v \<Rightarrow> Inr (h'(y := v))))))"
  by pat_completeness auto
termination
proof (relation "measure (\<lambda>c. case c of Inl (self, _) \<Rightarrow> 2 * size self + 1
                                         | Inr (self, _) \<Rightarrow> 2 * size self)")
  fix self :: coco_problem_t and inner
  assume "coco_get_transform_inner_problem self = Some inner"
  then have "size inner < size self"
    by (cases self) (simp add: coco_get_transform_inner_problem_def)
  then show "(Inl (inner, h, x, y), Inr (self, h, x, y))
      \<in> measure (\<lambda>c. case c of Inl (self, _) \<Rightarrow> 2 * size self + 1
                                | Inr (self, _) \<Rightarrow> 2 * size self)" for h :: heap and x y :: addr
    by simp
qed simp_all

subsection \<open>Construction\<close>

text \<open>
  Lines 40 to 51. The argument is a pointer that may be null. \<^verbatim>\<open>coco_allocate_memory\<close>
  returns fresh memory for the private data, here the record itself.
\<close>

definition penalize_uninteresting_values :: "coco_problem_t option \<Rightarrow> real \<Rightarrow> error + coco_problem_t" where
  "penalize_uninteresting_values inner_problem fac =
     (case inner_problem of
        None \<Rightarrow> Inl Assertion_failed
      | Some inner \<Rightarrow>
          (let data = \<lparr>factor = fac\<rparr>;
               self = coco_allocate_transformed_problem inner data
           in Inr (set_evaluate_function Puv_evaluate_function self)))"

subsection \<open>The penalty as the spec words it\<close>

text \<open>
  The spec's rule for one coordinate: the squared overshoot above the upper bound if there
  is one, else the squared undershoot below the lower bound if there is one, else nothing.
\<close>

definition spec_contribution :: "real \<Rightarrow> real \<Rightarrow> real \<Rightarrow> real" where
  "spec_contribution xi lower upper =
     (if xi - upper > 0 then (xi - upper) * (xi - upper)
      else if lower - xi > 0 then (lower - xi) * (lower - xi)
      else 0)"

text \<open>The spec's penalty: the sum of the contributions of the coordinates \<open>0\<close> to \<open>n - 1\<close>.\<close>

definition spec_penalty :: "real list \<Rightarrow> real list \<Rightarrow> real list \<Rightarrow> nat \<Rightarrow> real" where
  "spec_penalty x lower_bounds upper_bounds n =
     (\<Sum>i<n. spec_contribution (x ! i) (lower_bounds ! i) (upper_bounds ! i))"

section \<open>Properties of the loops\<close>

text \<open>
  The recursive equations of the loops and of the evaluation functions are unfolded by
  hand, one iteration at a time.
\<close>

declare penalty_loop.simps [simp del]
declare add_penalty_loop.simps [simp del]
declare coco_evaluate_function.simps [simp del]
declare puv_evaluate_function.simps [simp del]

lemma penalty_loop_sum:
  assumes "n \<le> length x" "n \<le> length l" "n \<le> length u" "\<forall>k<n. l ! k < u ! k"
  shows "penalty_loop x l u n i p = Inr (p + (\<Sum>k = i..<n. spec_contribution (x ! k) (l ! k) (u ! k)))"
  using assms
proof (induction x l u n i p rule: penalty_loop.induct)
  case (1 x l u n i p)
  show ?case
  proof (cases "i < n")
    case True
    then have s: "(\<Sum>k = i..<n. spec_contribution (x ! k) (l ! k) (u ! k)) =
        spec_contribution (x ! i) (l ! i) (u ! i) + (\<Sum>k = Suc i..<n. spec_contribution (x ! k) (l ! k) (u ! k))"
      by (simp add: sum.atLeast_Suc_lessThan)
    from True 1 show ?thesis
      apply (subst penalty_loop.simps)
      apply (simp only: s)
      apply (simp add: spec_contribution_def Let_def)
      done
  next
    case False
    then show ?thesis by (subst penalty_loop.simps) simp
  qed
qed

lemma penalty_loop_spec:
  assumes "n \<le> length x" "n \<le> length l" "n \<le> length u" "\<forall>k<n. l ! k < u ! k"
  shows "penalty_loop x l u n 0 0 = Inr (spec_penalty x l u n)"
  using penalty_loop_sum [OF assms, of 0 0] by (simp add: spec_penalty_def atLeast0LessThan)

lemma penalty_loop_assert:
  assumes "n \<le> length x" "n \<le> length l" "n \<le> length u" "i \<le> k" "k < n" "\<not> l ! k < u ! k"
  shows "penalty_loop x l u n i p = Inl Assertion_failed"
  using assms
proof (induction x l u n i p rule: penalty_loop.induct)
  case (1 x l u n i p)
  show ?case
  proof (cases "i = k")
    case True
    with 1 show ?thesis by (subst penalty_loop.simps) simp
  next
    case False
    with 1 have "Suc i \<le> k" "i < n" by simp_all
    with 1 show ?thesis
      by (subst penalty_loop.simps) (simp add: Let_def)
  qed
qed

lemma add_penalty_loop_index:
  assumes "m \<le> length ys"
  shows "add_penalty_loop (Some d) ys m i p =
    Inr (map (\<lambda>j. if i \<le> j \<and> j < m then ys ! j + factor d * p else ys ! j) [0..<length ys])"
  using assms
proof (induction "Some d" ys m i p rule: add_penalty_loop.induct)
  case (1 ys m i p)
  show ?case
  proof (cases "i < m")
    case True
    with 1 show ?thesis
      by (subst add_penalty_loop.simps) (auto simp: nth_list_update)
  next
    case False
    have "map (\<lambda>j. if i \<le> j \<and> j < m then ys ! j + factor d * p else ys ! j) [0..<length ys] = ys"
      using False by (intro nth_equalityI) simp_all
    with False show ?thesis
      by (subst add_penalty_loop.simps) simp
  qed
qed

lemma add_penalty_loop_all:
  assumes "length ys = m"
  shows "add_penalty_loop (Some d) ys m 0 p = Inr (map (\<lambda>v. v + factor d * p) ys)"
proof -
  have "map (\<lambda>j. if 0 \<le> j \<and> j < m then ys ! j + factor d * p else ys ! j) [0..<length ys]
      = map (\<lambda>v. v + factor d * p) ys"
    using assms by (intro nth_equalityI) simp_all
  with add_penalty_loop_index [of m ys d 0 p] assms show ?thesis by simp
qed

lemma add_penalty_loop_zero:
  assumes "m \<le> length ys"
  shows "add_penalty_loop (Some d) ys m 0 0 = Inr ys"
proof -
  have "map (\<lambda>j. if 0 \<le> j \<and> j < m then ys ! j + factor d * 0 else ys ! j) [0..<length ys] = ys"
    by (intro nth_equalityI) simp_all
  with add_penalty_loop_index [OF assms, of d 0 0] show ?thesis by simp
qed

lemma puv_evaluate_function_unfold:
  assumes "penalty_loop (h x) (smallest_values_of_interest self) (largest_values_of_interest self)
             (number_of_variables self) 0 0 = Inr penalty"
    and "coco_get_transform_inner_problem self = Some inner"
    and "coco_evaluate_function inner h x y = Inr h'"
    and "add_penalty_loop (coco_get_transform_data self) (h' y) (number_of_objectives self) 0 penalty = Inr v"
  shows "puv_evaluate_function self h x y = Inr (h'(y := v))"
  using assms by (simp add: puv_evaluate_function.simps Let_def)

lemma evaluate_frame:
  "coco_evaluate_function self h x y = Inr h' \<Longrightarrow> a \<noteq> y \<Longrightarrow> h' a = h a"
  "puv_evaluate_function self h x y = Inr h' \<Longrightarrow> a \<noteq> y \<Longrightarrow> h' a = h a"
proof (induction self h x y and self h x y arbitrary: h' and h'
    rule: coco_evaluate_function_puv_evaluate_function.induct)
  case (1 self h x y)
  then show ?case
    by (auto simp: coco_evaluate_function.simps split: evaluate_function_t.splits sum.splits)
next
  case (2 self h x y)
  then show ?case
    by (auto simp: puv_evaluate_function.simps Let_def split: sum.splits option.splits)
qed

lemma puv_evaluate_function_result:
  assumes "length (h x) = number_of_variables self"
    and "length (smallest_values_of_interest self) = number_of_variables self"
    and "length (largest_values_of_interest self) = number_of_variables self"
    and "\<forall>i<number_of_variables self.
           smallest_values_of_interest self ! i < largest_values_of_interest self ! i"
    and "coco_get_transform_inner_problem self = Some inner"
    and "coco_get_transform_data self = Some d"
    and "coco_evaluate_function inner h x y = Inr h'"
    and "length (h' y) = number_of_objectives self"
  shows "puv_evaluate_function self h x y =
           Inr (h'(y := map (\<lambda>v. v + factor d *
                  spec_penalty (h x) (smallest_values_of_interest self)
                    (largest_values_of_interest self) (number_of_variables self)) (h' y)))"
proof -
  have "penalty_loop (h x) (smallest_values_of_interest self) (largest_values_of_interest self)
          (number_of_variables self) 0 0 =
        Inr (spec_penalty (h x) (smallest_values_of_interest self)
          (largest_values_of_interest self) (number_of_variables self))"
    using assms(1-4) by (intro penalty_loop_spec) simp_all
  moreover have "add_penalty_loop (coco_get_transform_data self) (h' y) (number_of_objectives self) 0
      (spec_penalty (h x) (smallest_values_of_interest self)
          (largest_values_of_interest self) (number_of_variables self)) =
      Inr (map (\<lambda>v. v + factor d *
                  spec_penalty (h x) (smallest_values_of_interest self)
                    (largest_values_of_interest self) (number_of_variables self)) (h' y))"
    using assms(6,8) by (simp add: add_penalty_loop_all)
  ultimately show ?thesis
    using assms(5,7) by (simp add: puv_evaluate_function_unfold)
qed

lemma spec_contribution_in_bounds:
  "lower \<le> xi \<Longrightarrow> xi \<le> upper \<Longrightarrow> spec_contribution xi lower upper = 0"
  by (simp add: spec_contribution_def)

lemma penalize_uninteresting_values_Some:
  "penalize_uninteresting_values (Some inner) fac =
     Inr (Coco_problem Puv_evaluate_function
            (number_of_variables inner) (number_of_objectives inner)
            (smallest_values_of_interest inner) (largest_values_of_interest inner)
            (Some inner) (Some \<lparr>factor = fac\<rparr>))"
  by (simp add: penalize_uninteresting_values_def coco_allocate_transformed_problem_def)





section \<open>The claims\<close>

text \<open>
  Claim C1. For a problem whose bounds are well formed and an input vector of
  \<open>number_of_variables\<close> entries, \<^verbatim>\<open>_puv_evaluate_function\<close> leaves in \<^verbatim>\<open>y\<close> the inner
  problem's result with \<open>factor * penalty\<close> added to every one of its components, the same
  scalar for each. The penalty is the spec's sum over the coordinates: the squared
  overshoot above the upper bound, else the squared undershoot below the lower bound, else
  nothing. No coordinate satisfies both conditions.
\<close>

theorem puv_evaluate_function_adds_scaled_penalty:
  assumes "length (h x) = number_of_variables self"
    and "length (smallest_values_of_interest self) = number_of_variables self"
    and "length (largest_values_of_interest self) = number_of_variables self"
    and "\<forall>i<number_of_variables self.
           smallest_values_of_interest self ! i < largest_values_of_interest self ! i"
    and "coco_get_transform_inner_problem self = Some inner"
    and "coco_get_transform_data self = Some d"
    and "coco_evaluate_function inner h x y = Inr h'"
    and "length (h' y) = number_of_objectives self"
  shows "puv_evaluate_function self h x y =
           Inr (h'(y := map (\<lambda>v. v + factor d *
                  spec_penalty (h x) (smallest_values_of_interest self)
                    (largest_values_of_interest self) (number_of_variables self)) (h' y)))
         \<and> (\<forall>i<number_of_variables self.
              \<not> (h x ! i - largest_values_of_interest self ! i > 0
                 \<and> smallest_values_of_interest self ! i - h x ! i > 0))"
proof
  show "puv_evaluate_function self h x y =
           Inr (h'(y := map (\<lambda>v. v + factor d *
                  spec_penalty (h x) (smallest_values_of_interest self)
                    (largest_values_of_interest self) (number_of_variables self)) (h' y)))"
    using assms by (rule puv_evaluate_function_result)
next
  show "\<forall>i<number_of_variables self.
              \<not> (h x ! i - largest_values_of_interest self ! i > 0
                 \<and> smallest_values_of_interest self ! i - h x ! i > 0)"
  proof (intro allI impI)
    fix i assume "i < number_of_variables self"
    with assms(4) have "smallest_values_of_interest self ! i < largest_values_of_interest self ! i"
      by simp
    then show "\<not> (h x ! i - largest_values_of_interest self ! i > 0
                 \<and> smallest_values_of_interest self ! i - h x ! i > 0)"
      by linarith
  qed
qed

theorem puv_evaluate_function_adds_scaled_penalty_witness:
  "puv_evaluate_function
     (Coco_problem Puv_evaluate_function 2 2 [-1, -1] [1, 1]
        (Some (Coco_problem (Extern (\<lambda>v. Inr [5, 6])) 2 2 [-1, -1] [1, 1] None None))
        (Some \<lparr>factor = 2\<rparr>))
     ((\<lambda>a. [])(0 := [-3, 0])) 0 1
   = Inr (((\<lambda>a. [])(0 := [-3, 0]))(1 := [13, 14]))"
proof -
  let ?inner = "Coco_problem (Extern (\<lambda>v. Inr [5, 6])) 2 2 [-1, -1] [1, 1] None None"
  let ?self = "Coco_problem Puv_evaluate_function 2 2 [-1, -1] [1, 1] (Some ?inner) (Some \<lparr>factor = 2\<rparr>)"
  let ?h = "(\<lambda>a. [])(0 := [-3, 0 :: real])"
  have b: "\<forall>i<number_of_variables ?self.
      smallest_values_of_interest ?self ! i < largest_values_of_interest ?self ! i"
    by (simp add: less_Suc_eq numeral_2_eq_2)
  have e: "coco_evaluate_function ?inner ?h 0 1 = Inr (?h(1 := [5, 6]))"
    by (simp add: coco_evaluate_function.simps)
  have "spec_penalty [-3, 0] [-1, -1] [1, 1] 2 = 4"
    by (simp add: spec_penalty_def spec_contribution_def numeral_2_eq_2)
  with puv_evaluate_function_adds_scaled_penalty
    [of ?h 0 ?self ?inner "\<lparr>factor = 2\<rparr>" 1 "?h(1 := [5, 6])", OF _ _ _ b _ _ e]
  show ?thesis
    by (simp add: coco_get_transform_inner_problem_def coco_get_transform_data_def)
qed

text \<open>
  Claim C2. When every coordinate of the input lies within its bounds (both ends included)
  the penalty is 0 and \<^verbatim>\<open>_puv_evaluate_function\<close> returns exactly what the inner problem's
  evaluation returns.
\<close>

theorem in_bounds_transparency:
  assumes "length (h x) = number_of_variables self"
    and "length (smallest_values_of_interest self) = number_of_variables self"
    and "length (largest_values_of_interest self) = number_of_variables self"
    and "\<forall>i<number_of_variables self.
           smallest_values_of_interest self ! i < largest_values_of_interest self ! i"
    and "\<forall>i<number_of_variables self.
           smallest_values_of_interest self ! i \<le> h x ! i
           \<and> h x ! i \<le> largest_values_of_interest self ! i"
    and "coco_get_transform_inner_problem self = Some inner"
    and "coco_get_transform_data self = Some d"
    and "coco_evaluate_function inner h x y = Inr h'"
    and "number_of_objectives self \<le> length (h' y)"
  shows "penalty_loop (h x) (smallest_values_of_interest self) (largest_values_of_interest self)
           (number_of_variables self) 0 0 = Inr 0
         \<and> puv_evaluate_function self h x y = coco_evaluate_function inner h x y"
proof -
  have "spec_penalty (h x) (smallest_values_of_interest self) (largest_values_of_interest self)
          (number_of_variables self) = 0"
    unfolding spec_penalty_def using assms(5)
    by (intro sum.neutral ballI spec_contribution_in_bounds) simp_all
  then have p: "penalty_loop (h x) (smallest_values_of_interest self)
      (largest_values_of_interest self) (number_of_variables self) 0 0 = Inr 0"
    using assms(1-4) by (simp add: penalty_loop_spec)
  have "add_penalty_loop (coco_get_transform_data self) (h' y) (number_of_objectives self) 0 0
      = Inr (h' y)"
    using assms(7,9) by (simp add: add_penalty_loop_zero)
  from puv_evaluate_function_unfold [OF p assms(6) assms(8) this]
  have "puv_evaluate_function self h x y = Inr h'" by simp
  with p assms(8) show ?thesis by simp
qed

theorem in_bounds_transparency_witness:
  "puv_evaluate_function
     (Coco_problem Puv_evaluate_function 2 1 [-1, -1] [1, 1]
        (Some (Coco_problem (Extern (\<lambda>v. Inr [5])) 2 1 [-1, -1] [1, 1] None None))
        (Some \<lparr>factor = 2\<rparr>))
     ((\<lambda>a. [])(0 := [1, -1])) 0 1
   = Inr (((\<lambda>a. [])(0 := [1, -1]))(1 := [5]))"
proof -
  let ?inner = "Coco_problem (Extern (\<lambda>v. Inr [5])) 2 1 [-1, -1] [1, 1] None None"
  let ?self = "Coco_problem Puv_evaluate_function 2 1 [-1, -1] [1, 1] (Some ?inner) (Some \<lparr>factor = 2\<rparr>)"
  let ?h = "(\<lambda>a. [])(0 := [1, -1 :: real])"
  have b: "\<forall>i<number_of_variables ?self.
      smallest_values_of_interest ?self ! i < largest_values_of_interest ?self ! i"
    by (simp add: less_Suc_eq numeral_2_eq_2)
  have c: "\<forall>i<number_of_variables ?self.
      smallest_values_of_interest ?self ! i \<le> ?h 0 ! i
      \<and> ?h 0 ! i \<le> largest_values_of_interest ?self ! i"
    by (simp add: less_Suc_eq numeral_2_eq_2)
  have e: "coco_evaluate_function ?inner ?h 0 1 = Inr (?h(1 := [5]))"
    by (simp add: coco_evaluate_function.simps)
  from in_bounds_transparency
    [of ?h 0 ?self ?inner "\<lparr>factor = 2\<rparr>" 1 "?h(1 := [5])", OF _ _ _ b c _ _ e]
  have "puv_evaluate_function ?self ?h 0 1 = coco_evaluate_function ?inner ?h 0 1"
    by (simp add: coco_get_transform_inner_problem_def coco_get_transform_data_def)
  then show ?thesis by (simp only: e)
qed

text \<open>
  Claim C3. The problem \<^verbatim>\<open>penalize_uninteresting_values\<close> returns has the inner problem's
  \<open>number_of_variables\<close>, \<open>number_of_objectives\<close> and bound vectors, unchanged; what differs
  is the evaluation function, which is \<^verbatim>\<open>_puv_evaluate_function\<close>, and the reference to the
  inner problem.
\<close>

theorem metadata_pass_through:
  "\<exists>self. penalize_uninteresting_values (Some inner) fac = Inr self
     \<and> number_of_variables self = number_of_variables inner
     \<and> number_of_objectives self = number_of_objectives inner
     \<and> smallest_values_of_interest self = smallest_values_of_interest inner
     \<and> largest_values_of_interest self = largest_values_of_interest inner
     \<and> evaluate_function self = Puv_evaluate_function
     \<and> coco_get_transform_inner_problem self = Some inner"
  by (simp add: penalize_uninteresting_values_Some coco_get_transform_inner_problem_def)

text \<open>
  Claim C4. The failures are assertion failures. The constructor aborts on a null inner
  problem and returns a problem on any other. The evaluation aborts when some coordinate
  has \<open>lower \<ge> upper\<close>, and when the inner problem is null. Under the preconditions
  (well-formed bounds, an inner problem that is there and evaluates, buffers of the
  problem's dimensions) the evaluation returns a result and no error.
\<close>

theorem assertions_are_fatal:
  "penalize_uninteresting_values None fac = Inl Assertion_failed
   \<and> (\<exists>self'. penalize_uninteresting_values (Some inner') fac = Inr self')
   \<and> (number_of_variables self \<le> length (h x)
        \<and> number_of_variables self \<le> length (smallest_values_of_interest self)
        \<and> number_of_variables self \<le> length (largest_values_of_interest self)
        \<and> i < number_of_variables self
        \<and> \<not> smallest_values_of_interest self ! i < largest_values_of_interest self ! i
      \<longrightarrow> puv_evaluate_function self h x y = Inl Assertion_failed)
   \<and> (number_of_variables self \<le> length (h x)
        \<and> number_of_variables self \<le> length (smallest_values_of_interest self)
        \<and> number_of_variables self \<le> length (largest_values_of_interest self)
        \<and> (\<forall>k<number_of_variables self.
              smallest_values_of_interest self ! k < largest_values_of_interest self ! k)
        \<and> coco_get_transform_inner_problem self = None
      \<longrightarrow> puv_evaluate_function self h x y = Inl Assertion_failed)
   \<and> (number_of_variables self \<le> length (h x)
        \<and> number_of_variables self \<le> length (smallest_values_of_interest self)
        \<and> number_of_variables self \<le> length (largest_values_of_interest self)
        \<and> (\<forall>k<number_of_variables self.
              smallest_values_of_interest self ! k < largest_values_of_interest self ! k)
        \<and> coco_get_transform_inner_problem self = Some inner
        \<and> coco_get_transform_data self = Some d
        \<and> coco_evaluate_function inner h x y = Inr h'
        \<and> number_of_objectives self \<le> length (h' y)
      \<longrightarrow> (\<exists>r. puv_evaluate_function self h x y = Inr r))"
proof (intro conjI impI)
  show "penalize_uninteresting_values None fac = Inl Assertion_failed"
    by (simp add: penalize_uninteresting_values_def)
  show "\<exists>self'. penalize_uninteresting_values (Some inner') fac = Inr self'"
    by (simp add: penalize_uninteresting_values_Some)
next
  assume a: "number_of_variables self \<le> length (h x)
        \<and> number_of_variables self \<le> length (smallest_values_of_interest self)
        \<and> number_of_variables self \<le> length (largest_values_of_interest self)
        \<and> i < number_of_variables self
        \<and> \<not> smallest_values_of_interest self ! i < largest_values_of_interest self ! i"
  then have "penalty_loop (h x) (smallest_values_of_interest self)
      (largest_values_of_interest self) (number_of_variables self) 0 0 = Inl Assertion_failed"
    by (intro penalty_loop_assert [where k = i]) simp_all
  then show "puv_evaluate_function self h x y = Inl Assertion_failed"
    by (simp add: puv_evaluate_function.simps Let_def)
next
  assume a: "number_of_variables self \<le> length (h x)
        \<and> number_of_variables self \<le> length (smallest_values_of_interest self)
        \<and> number_of_variables self \<le> length (largest_values_of_interest self)
        \<and> (\<forall>k<number_of_variables self.
              smallest_values_of_interest self ! k < largest_values_of_interest self ! k)
        \<and> coco_get_transform_inner_problem self = None"
  then have "penalty_loop (h x) (smallest_values_of_interest self)
      (largest_values_of_interest self) (number_of_variables self) 0 0
      = Inr (spec_penalty (h x) (smallest_values_of_interest self)
          (largest_values_of_interest self) (number_of_variables self))"
    by (intro penalty_loop_spec) simp_all
  with a show "puv_evaluate_function self h x y = Inl Assertion_failed"
    by (simp add: puv_evaluate_function.simps Let_def)
next
  assume a: "number_of_variables self \<le> length (h x)
        \<and> number_of_variables self \<le> length (smallest_values_of_interest self)
        \<and> number_of_variables self \<le> length (largest_values_of_interest self)
        \<and> (\<forall>k<number_of_variables self.
              smallest_values_of_interest self ! k < largest_values_of_interest self ! k)
        \<and> coco_get_transform_inner_problem self = Some inner
        \<and> coco_get_transform_data self = Some d
        \<and> coco_evaluate_function inner h x y = Inr h'
        \<and> number_of_objectives self \<le> length (h' y)"
  then have "penalty_loop (h x) (smallest_values_of_interest self)
      (largest_values_of_interest self) (number_of_variables self) 0 0
      = Inr (spec_penalty (h x) (smallest_values_of_interest self)
          (largest_values_of_interest self) (number_of_variables self))"
    by (intro penalty_loop_spec) simp_all
  with a show "\<exists>r. puv_evaluate_function self h x y = Inr r"
    by (simp add: puv_evaluate_function.simps Let_def add_penalty_loop_index)
qed

theorem assertions_are_fatal_witness:
  "penalize_uninteresting_values None 2 = Inl Assertion_failed
   \<and> (\<exists>self'. penalize_uninteresting_values
         (Some (Coco_problem (Extern (\<lambda>v. Inr [5])) 2 1 [-1, -1] [1, 1] None None)) 2 = Inr self')
   \<and> puv_evaluate_function
       (Coco_problem Puv_evaluate_function 2 1 [-1, 1] [1, 1]
          (Some (Coco_problem (Extern (\<lambda>v. Inr [5])) 2 1 [-1, 1] [1, 1] None None))
          (Some \<lparr>factor = 2\<rparr>))
       ((\<lambda>a. [])(0 := [0, 0])) 0 2 = Inl Assertion_failed
   \<and> puv_evaluate_function
       (Coco_problem Puv_evaluate_function 2 1 [-1, -1] [1, 1] None (Some \<lparr>factor = 2\<rparr>))
       ((\<lambda>a. [])(0 := [0, 0])) 0 2 = Inl Assertion_failed
   \<and> (\<exists>r. puv_evaluate_function
       (Coco_problem Puv_evaluate_function 2 1 [-1, -1] [1, 1]
          (Some (Coco_problem (Extern (\<lambda>v. Inr [5])) 2 1 [-1, -1] [1, 1] None None))
          (Some \<lparr>factor = 2\<rparr>))
       ((\<lambda>a. [])(0 := [2, 0])) 0 2 = Inr r)"
proof -
  let ?inner = "Coco_problem (Extern (\<lambda>v. Inr [5])) 2 1 [-1, -1] [1, 1] None None"
  let ?bad_inner = "Coco_problem (Extern (\<lambda>v. Inr [5])) 2 1 [-1, 1] [1, 1] None None"
  let ?h = "(\<lambda>a. [])(0 := [0, 0 :: real])"
  let ?g = "(\<lambda>a. [])(0 := [2, 0 :: real])"
  have b: "\<forall>k<2. [-1, -1 :: real] ! k < [1, 1] ! k"
    by (simp add: less_Suc_eq numeral_2_eq_2)
  have e: "coco_evaluate_function ?inner ?g 0 2 = Inr (?g(2 := [5]))"
    by (simp add: coco_evaluate_function.simps)
  note t = assertions_are_fatal [where fac = 2 and inner' = ?inner]
  from t [where self = "Coco_problem Puv_evaluate_function 2 1 [-1, 1] [1, 1]
             (Some ?bad_inner) (Some \<lparr>factor = 2\<rparr>)" and h = ?h and x = 0 and y = 2 and i = 1]
  have 1: "penalize_uninteresting_values None 2 = Inl Assertion_failed"
    and 2: "\<exists>self'. penalize_uninteresting_values (Some ?inner) 2 = Inr self'"
    and 3: "puv_evaluate_function
       (Coco_problem Puv_evaluate_function 2 1 [-1, 1] [1, 1]
          (Some ?bad_inner) (Some \<lparr>factor = 2\<rparr>)) ?h 0 2 = Inl Assertion_failed"
    by simp_all
  from t [where self = "Coco_problem Puv_evaluate_function 2 1 [-1, -1] [1, 1]
             None (Some \<lparr>factor = 2\<rparr>)" and h = ?h and x = 0 and y = 2] b
  have 4: "puv_evaluate_function
       (Coco_problem Puv_evaluate_function 2 1 [-1, -1] [1, 1] None (Some \<lparr>factor = 2\<rparr>))
       ?h 0 2 = Inl Assertion_failed"
    by (simp add: coco_get_transform_inner_problem_def)
  from t [where self = "Coco_problem Puv_evaluate_function 2 1 [-1, -1] [1, 1]
             (Some ?inner) (Some \<lparr>factor = 2\<rparr>)" and h = ?g and x = 0 and y = 2
             and inner = ?inner and d = "\<lparr>factor = 2\<rparr>" and h' = "?g(2 := [5])"] b e
  have 5: "\<exists>r. puv_evaluate_function
       (Coco_problem Puv_evaluate_function 2 1 [-1, -1] [1, 1]
          (Some ?inner) (Some \<lparr>factor = 2\<rparr>)) ?g 0 2 = Inr r"
    by (simp add: coco_get_transform_inner_problem_def coco_get_transform_data_def)
  from 1 2 3 4 5 show ?thesis by simp
qed

text \<open>
  Claim C5. Two transforms of the same inner problem that differ in the factor only, one
  with factor 1 and one with factor \<open>k\<close>: given the same inner result, the first adds the
  penalty to every objective and the second adds \<open>k\<close> times the same penalty.
\<close>

theorem factor_scaling:
  assumes "length (h x) = n" and "length lower_bounds = n" and "length upper_bounds = n"
    and "\<forall>i<n. lower_bounds ! i < upper_bounds ! i"
    and "coco_evaluate_function inner h x y = Inr h'"
    and "length (h' y) = m"
  shows "puv_evaluate_function
           (Coco_problem Puv_evaluate_function n m lower_bounds upper_bounds
              (Some inner) (Some \<lparr>factor = 1\<rparr>)) h x y
         = Inr (h'(y := map (\<lambda>v. v + spec_penalty (h x) lower_bounds upper_bounds n) (h' y)))
         \<and> puv_evaluate_function
           (Coco_problem Puv_evaluate_function n m lower_bounds upper_bounds
              (Some inner) (Some \<lparr>factor = k\<rparr>)) h x y
         = Inr (h'(y := map (\<lambda>v. v + k * spec_penalty (h x) lower_bounds upper_bounds n) (h' y)))"
proof -
  have "puv_evaluate_function
           (Coco_problem Puv_evaluate_function n m lower_bounds upper_bounds
              (Some inner) (Some \<lparr>factor = f\<rparr>)) h x y
         = Inr (h'(y := map (\<lambda>v. v + f * spec_penalty (h x) lower_bounds upper_bounds n) (h' y)))"
    for f
    using puv_evaluate_function_result
      [of h x "Coco_problem Puv_evaluate_function n m lower_bounds upper_bounds
              (Some inner) (Some \<lparr>factor = f\<rparr>)" inner "\<lparr>factor = f\<rparr>" y h'] assms
    by (simp add: coco_get_transform_inner_problem_def coco_get_transform_data_def)
  from this [of 1] this [of k] show ?thesis by simp
qed

theorem factor_scaling_witness:
  "puv_evaluate_function
     (Coco_problem Puv_evaluate_function 1 1 [-1] [1]
        (Some (Coco_problem (Extern (\<lambda>v. Inr [5])) 1 1 [-1] [1] None None))
        (Some \<lparr>factor = 1\<rparr>))
     ((\<lambda>a. [])(0 := [3])) 0 2
   = Inr (((\<lambda>a. [])(0 := [3]))(2 := [9]))
   \<and> puv_evaluate_function
     (Coco_problem Puv_evaluate_function 1 1 [-1] [1]
        (Some (Coco_problem (Extern (\<lambda>v. Inr [5])) 1 1 [-1] [1] None None))
        (Some \<lparr>factor = 3\<rparr>))
     ((\<lambda>a. [])(0 := [3])) 0 2
   = Inr (((\<lambda>a. [])(0 := [3]))(2 := [17]))"
proof -
  let ?inner = "Coco_problem (Extern (\<lambda>v. Inr [5])) 1 1 [-1] [1] None None"
  let ?h = "(\<lambda>a. [])(0 := [3 :: real])"
  have e: "coco_evaluate_function ?inner ?h 0 2 = Inr (?h(2 := [5]))"
    by (simp add: coco_evaluate_function.simps)
  have "spec_penalty [3] [-1] [1] 1 = 4"
    by (simp add: spec_penalty_def spec_contribution_def)
  with factor_scaling [of ?h 0 1 "[-1]" "[1]" ?inner 2 "?h(2 := [5])" 1 3, OF _ _ _ _ e]
  show ?thesis by simp
qed




text \<open>
  Claim C7. The spec's concrete scenario: two variables, one objective, bounds
  \<open>[-1, -1]\<close> and \<open>[1, 1]\<close>, an inner problem that yields \<open>[5]\<close>, factor \<open>2\<close>. The input
  \<open>[2, 0]\<close> is stored at address 0 and the result is written at address 1. After
  coordinate 0 the penalty is 1, coordinate 1 adds nothing, and the transform returns
  \<open>[7]\<close>.
\<close>

theorem concrete_scenario:
  "penalty_loop [2, 0] [-1, -1] [1, 1] 1 0 0 = Inr 1
   \<and> penalty_loop [2, 0] [-1, -1] [1, 1] 2 0 0 = Inr 1
   \<and> coco_evaluate_function
       (Coco_problem (Extern (\<lambda>v. Inr [5])) 2 1 [-1, -1] [1, 1] None None)
       ((\<lambda>a. [])(0 := [2, 0])) 0 1
     = Inr (((\<lambda>a. [])(0 := [2, 0]))(1 := [5]))
   \<and> puv_evaluate_function
       (Coco_problem Puv_evaluate_function 2 1 [-1, -1] [1, 1]
          (Some (Coco_problem (Extern (\<lambda>v. Inr [5])) 2 1 [-1, -1] [1, 1] None None))
          (Some \<lparr>factor = 2\<rparr>))
       ((\<lambda>a. [])(0 := [2, 0])) 0 1
     = Inr (((\<lambda>a. [])(0 := [2, 0]))(1 := [7]))"
  by (simp add: puv_evaluate_function.simps coco_evaluate_function.simps penalty_loop.simps
      add_penalty_loop.simps coco_get_transform_inner_problem_def coco_get_transform_data_def)

text \<open>
  Claim C8. The bound vectors \<^verbatim>\<open>_puv_evaluate_function\<close> reads are the transformed problem's
  own fields. Construction fills them with the inner problem's bounds, so on the problem
  \<^verbatim>\<open>penalize_uninteresting_values\<close> returns the loop computes the spec's penalty over the
  inner problem's bounds, and the evaluation adds the factor times that penalty to the
  inner problem's result.
\<close>

theorem penalty_from_inner_bounds:
  assumes "penalize_uninteresting_values (Some inner) fac = Inr self"
    and "length (h x) = number_of_variables inner"
    and "length (smallest_values_of_interest inner) = number_of_variables inner"
    and "length (largest_values_of_interest inner) = number_of_variables inner"
    and "\<forall>i<number_of_variables inner.
           smallest_values_of_interest inner ! i < largest_values_of_interest inner ! i"
    and "coco_evaluate_function inner h x y = Inr h'"
    and "length (h' y) = number_of_objectives inner"
  shows "smallest_values_of_interest self = smallest_values_of_interest inner
       \<and> largest_values_of_interest self = largest_values_of_interest inner
       \<and> penalty_loop (h x) (smallest_values_of_interest self) (largest_values_of_interest self)
           (number_of_variables self) 0 0
         = Inr (spec_penalty (h x) (smallest_values_of_interest inner)
             (largest_values_of_interest inner) (number_of_variables inner))
       \<and> puv_evaluate_function self h x y
         = Inr (h'(y := map (\<lambda>r. r + fac *
             spec_penalty (h x) (smallest_values_of_interest inner)
               (largest_values_of_interest inner) (number_of_variables inner)) (h' y)))"
proof -
  from assms(1) have self: "self = Coco_problem Puv_evaluate_function
      (number_of_variables inner) (number_of_objectives inner)
      (smallest_values_of_interest inner) (largest_values_of_interest inner)
      (Some inner) (Some \<lparr>factor = fac\<rparr>)"
    by (simp add: penalize_uninteresting_values_Some)
  have loop: "penalty_loop (h x) (smallest_values_of_interest inner)
      (largest_values_of_interest inner) (number_of_variables inner) 0 0
      = Inr (spec_penalty (h x) (smallest_values_of_interest inner)
             (largest_values_of_interest inner) (number_of_variables inner))"
    using assms(2-5) by (intro penalty_loop_spec) simp_all
  have "puv_evaluate_function self h x y
      = Inr (h'(y := map (\<lambda>r. r + fac *
             spec_penalty (h x) (smallest_values_of_interest inner)
               (largest_values_of_interest inner) (number_of_variables inner)) (h' y)))"
    using puv_evaluate_function_result [of h x self inner "\<lparr>factor = fac\<rparr>" y h'] assms(2-7)
    by (simp add: self coco_get_transform_inner_problem_def coco_get_transform_data_def)
  with loop show ?thesis by (simp add: self)
qed

theorem penalty_from_inner_bounds_witness:
  "penalize_uninteresting_values
       (Some (Coco_problem (Extern (\<lambda>u. Inr [5, 6])) 2 2 [-1, -2] [1, 2] None None)) 3
     = Inr (Coco_problem Puv_evaluate_function 2 2 [-1, -2] [1, 2]
         (Some (Coco_problem (Extern (\<lambda>u. Inr [5, 6])) 2 2 [-1, -2] [1, 2] None None))
         (Some \<lparr>factor = 3\<rparr>))
   \<and> penalty_loop [2, -4] [-1, -2] [1, 2] 2 0 0 = Inr 5
   \<and> puv_evaluate_function
       (Coco_problem Puv_evaluate_function 2 2 [-1, -2] [1, 2]
         (Some (Coco_problem (Extern (\<lambda>u. Inr [5, 6])) 2 2 [-1, -2] [1, 2] None None))
         (Some \<lparr>factor = 3\<rparr>))
       ((\<lambda>a. [])(0 := [2, -4])) 0 2
     = Inr (((\<lambda>a. [])(0 := [2, -4]))(2 := [20, 21]))"
proof -
  let ?inner = "Coco_problem (Extern (\<lambda>u. Inr [5, 6])) 2 2 [-1, -2] [1, 2] None None"
  let ?self = "Coco_problem Puv_evaluate_function 2 2 [-1, -2] [1, 2] (Some ?inner)
    (Some \<lparr>factor = 3\<rparr>)"
  let ?h = "(\<lambda>a. [])(0 := [2, -4 :: real])"
  have s: "penalize_uninteresting_values (Some ?inner) 3 = Inr ?self"
    by (simp add: penalize_uninteresting_values_Some)
  have b: "\<forall>i<number_of_variables ?inner.
      smallest_values_of_interest ?inner ! i < largest_values_of_interest ?inner ! i"
    by (simp add: less_Suc_eq numeral_2_eq_2)
  have e: "coco_evaluate_function ?inner ?h 0 2 = Inr (?h(2 := [5, 6]))"
    by (simp add: coco_evaluate_function.simps)
  have p: "spec_penalty [2, -4] [-1, -2] [1, 2] 2 = 5"
    by (simp add: spec_penalty_def spec_contribution_def numeral_2_eq_2)
  from penalty_from_inner_bounds [OF s _ _ _ b e] p s show ?thesis
    by simp
qed

text \<open>
  Claim C9, amended. When \<^verbatim>\<open>x\<close> and \<^verbatim>\<open>y\<close> are different arrays, a call that returns leaves
  the array at \<^verbatim>\<open>x\<close> as it was, and every array other than the one at \<^verbatim>\<open>y\<close>.
\<close>

theorem input_vector_unchanged_without_aliasing:
  assumes "puv_evaluate_function self h x y = Inr h'" and "x \<noteq> y"
  shows "h' x = h x \<and> (\<forall>a. a \<noteq> y \<longrightarrow> h' a = h a)"
  using assms evaluate_frame(2) [of self h x y h'] by simp

theorem input_vector_unchanged_without_aliasing_witness:
  "puv_evaluate_function
     (Coco_problem Puv_evaluate_function 1 1 [-1] [1]
        (Some (Coco_problem (Extern (\<lambda>v. Inr [5])) 1 1 [-1] [1] None None))
        (Some \<lparr>factor = 2\<rparr>))
     ((\<lambda>a. [])(0 := [2])) 0 3
   = Inr (((\<lambda>a. [])(0 := [2]))(3 := [7]))
   \<and> (((\<lambda>a. [])(0 := [2]))(3 :: addr := [7 :: real])) 0 = ((\<lambda>a :: addr. [])(0 := [2])) 0"
proof -
  have e: "puv_evaluate_function
     (Coco_problem Puv_evaluate_function 1 1 [-1] [1]
        (Some (Coco_problem (Extern (\<lambda>v. Inr [5])) 1 1 [-1] [1] None None))
        (Some \<lparr>factor = 2\<rparr>))
     ((\<lambda>a. [])(0 := [2])) 0 3
   = Inr (((\<lambda>a. [])(0 := [2]))(3 := [7]))"
    by (simp add: puv_evaluate_function.simps coco_evaluate_function.simps penalty_loop.simps
      add_penalty_loop.simps coco_get_transform_inner_problem_def coco_get_transform_data_def)
  have n: "(0 :: addr) \<noteq> 3" by simp
  have f: "(((\<lambda>a. [])(0 := [2]))(3 :: addr := [7 :: real])) 0 = ((\<lambda>a :: addr. [])(0 := [2])) 0"
    using input_vector_unchanged_without_aliasing [OF e n] by (rule conjunct1)
  show ?thesis using e f by (rule conjI)
qed

text \<open>
  Claim C9 as stated fails when the caller passes one buffer as both \<^verbatim>\<open>x\<close> and \<^verbatim>\<open>y\<close>,
  which the C signature allows: with one variable, one objective, bounds \<open>[-1]\<close> and
  \<open>[1]\<close>, factor 2 and the input \<open>[2]\<close>, the inner evaluation stores 5 and line 30 adds
  \<open>2 * 1\<close>, so the input array holds \<open>[7]\<close> after the call.
\<close>

theorem input_vector_changed_by_aliasing:
  "puv_evaluate_function
     (Coco_problem Puv_evaluate_function 1 1 [-1] [1]
        (Some (Coco_problem (Extern (\<lambda>v. Inr [5])) 1 1 [-1] [1] None None))
        (Some \<lparr>factor = 2\<rparr>))
     ((\<lambda>a. [])(0 := [2])) 0 0
   = Inr (((\<lambda>a. [])(0 := [2]))(0 := [7]))
   \<and> (((\<lambda>a. [])(0 := [2]))(0 :: addr := [7 :: real])) 0 \<noteq> ((\<lambda>a :: addr. [])(0 := [2])) 0"
  by (simp add: puv_evaluate_function.simps coco_evaluate_function.simps penalty_loop.simps
      add_penalty_loop.simps coco_get_transform_inner_problem_def coco_get_transform_data_def)

text \<open>
  Claim C10. With \<open>number_of_variables = 0\<close> the penalty loop runs no iteration, the penalty
  stays 0 and, whatever the input, the bounds and the factor, the transform returns exactly
  the inner problem's result.
\<close>

theorem zero_variables_transparency:
  assumes "number_of_variables self = 0"
    and "coco_get_transform_inner_problem self = Some inner"
    and "coco_get_transform_data self = Some d"
    and "coco_evaluate_function inner h x y = Inr h'"
    and "number_of_objectives self \<le> length (h' y)"
  shows "penalty_loop (h x) (smallest_values_of_interest self) (largest_values_of_interest self)
           (number_of_variables self) 0 0 = Inr 0
         \<and> puv_evaluate_function self h x y = coco_evaluate_function inner h x y"
proof -
  have p: "penalty_loop (h x) (smallest_values_of_interest self)
      (largest_values_of_interest self) (number_of_variables self) 0 0 = Inr 0"
    using assms(1) by (simp add: penalty_loop.simps)
  have "add_penalty_loop (coco_get_transform_data self) (h' y) (number_of_objectives self) 0 0
      = Inr (h' y)"
    using assms(3,5) by (simp add: add_penalty_loop_zero)
  from puv_evaluate_function_unfold [OF p assms(2) assms(4) this]
  have "puv_evaluate_function self h x y = Inr h'" by simp
  with p assms(4) show ?thesis by simp
qed

theorem zero_variables_transparency_witness:
  "puv_evaluate_function
     (Coco_problem Puv_evaluate_function 0 2 [] []
        (Some (Coco_problem (Extern (\<lambda>v. Inr [5, 6])) 0 2 [] [] None None))
        (Some \<lparr>factor = 3\<rparr>))
     ((\<lambda>a. [])(0 := [9])) 0 1
   = Inr (((\<lambda>a. [])(0 := [9]))(1 := [5, 6]))"
proof -
  let ?inner = "Coco_problem (Extern (\<lambda>v. Inr [5, 6])) 0 2 [] [] None None"
  let ?self = "Coco_problem Puv_evaluate_function 0 2 [] [] (Some ?inner) (Some \<lparr>factor = 3\<rparr>)"
  let ?h = "(\<lambda>a. [])(0 := [9 :: real])"
  have e: "coco_evaluate_function ?inner ?h 0 1 = Inr (?h(1 := [5, 6]))"
    by (simp add: coco_evaluate_function.simps)
  from zero_variables_transparency
    [of ?self ?inner "\<lparr>factor = 3\<rparr>" ?h 0 1 "?h(1 := [5, 6])", OF _ _ _ e]
  have "puv_evaluate_function ?self ?h 0 1 = coco_evaluate_function ?inner ?h 0 1"
    by (simp add: coco_get_transform_inner_problem_def coco_get_transform_data_def)
  then show ?thesis by (simp only: e)
qed

end
